theory Spec2Isabelle
  imports Complex_Main
begin

section \<open>JavaScript values\<close>

text \<open>
  The server of \<^verbatim>\<open>src/server.ts\<close> is a TypeScript program; the values it handles are
  JavaScript values. A Number is represented by the mathematical value it denotes
  (\<open>Fin q\<close>), or is \<open>NaN\<close> or an infinity; the two zeros are identified (they are
  equal under \<^verbatim>\<open>==\<close> and both falsy) and the rounding of a long numeral to the nearest
  double is not represented. A string is the list of its code units, each below 256;
  Symbols and BigInts do not occur.
\<close>

datatype jsnum = NaN | PosInf | NegInf | Fin rat

datatype prim = Undefined | Null | Boolean bool | Number jsnum | Str string

text \<open>Data handed to a template: primitives, arrays and object literals.\<close>

datatype jsval = Prim prim | Array "jsval list" | Object "(string \<times> jsval) list"

text \<open>ToBoolean: what \<^verbatim>\<open>||\<close> and \<^verbatim>\<open>if\<close> test.\<close>

fun truthy_prim :: "prim \<Rightarrow> bool" where
  "truthy_prim Undefined = False"
| "truthy_prim Null = False"
| "truthy_prim (Boolean b) = b"
| "truthy_prim (Number n) = (n \<noteq> NaN \<and> n \<noteq> Fin 0)"
| "truthy_prim (Str s) = (s \<noteq> [])"

fun truthy :: "jsval \<Rightarrow> bool" where
  "truthy (Prim p) = truthy_prim p"
| "truthy (Array xs) = True"
| "truthy (Object fs) = True"

text \<open>The operator \<^verbatim>\<open>a || b\<close>: the left operand when it is truthy, else the right one.\<close>

definition js_or :: "jsval \<Rightarrow> jsval \<Rightarrow> jsval" where
  "js_or a b = (if truthy a then a else b)"

subsection \<open>Characters, digits and white space\<close>

text \<open>ASCII case folding, as the \<^verbatim>\<open>i\<close> flag of a regular expression compares letters.\<close>

definition to_lower :: "char \<Rightarrow> char" where
  "to_lower c =
     (case map_of (zip ''ABCDEFGHIJKLMNOPQRSTUVWXYZ'' ''abcdefghijklmnopqrstuvwxyz'') c of
        Some d \<Rightarrow> d
      | None \<Rightarrow> c)"

primrec position :: "'a \<Rightarrow> 'a list \<Rightarrow> nat option" where
  "position x [] = None"
| "position x (y # ys) = (if x = y then Some 0 else map_option Suc (position x ys))"

definition digit_of :: "char \<Rightarrow> nat option" where
  "digit_of c = position (to_lower c) ''0123456789abcdefghijklmnopqrstuvwxyz''"

definition radix_digit :: "nat \<Rightarrow> char \<Rightarrow> bool" where
  "radix_digit r c = (case digit_of c of Some d \<Rightarrow> d < r | None \<Rightarrow> False)"

definition digits_value :: "nat \<Rightarrow> string \<Rightarrow> nat" where
  "digits_value r cs =
     foldl (\<lambda>a c. a * r + (case digit_of c of Some d \<Rightarrow> d | None \<Rightarrow> 0)) 0 cs"

text \<open>White space and line terminators, as far as they lie below 256.\<close>

definition is_ws :: "char \<Rightarrow> bool" where
  "is_ws c =
     (c \<in> set [CHR 0x09, CHR 0x0A, CHR 0x0B, CHR 0x0C, CHR 0x0D, CHR 0x20, CHR 0xA0])"


fun strip_sign :: "string \<Rightarrow> bool \<times> string" where
  "strip_sign [] = (False, [])"
| "strip_sign (c # cs) =
     (if c = CHR ''-'' then (True, cs)
      else if c = CHR ''+'' then (False, cs)
      else (False, c # cs))"

subsection \<open>parseInt\<close>

text \<open>
  \<^verbatim>\<open>parseInt(string)\<close> with no radix: leading white space is skipped, a sign is read,
  a \<^verbatim>\<open>0x\<close> prefix selects radix 16, and the longest prefix of digits is the result;
  \<open>NaN\<close> when that prefix is empty. Whatever follows the digits is ignored.
\<close>

fun strip_hex_prefix :: "string \<Rightarrow> nat \<times> string" where
  "strip_hex_prefix (a # b # cs) =
     (if a = CHR ''0'' \<and> (b = CHR ''x'' \<or> b = CHR ''X'') then (16, cs)
      else (10, a # b # cs))"
| "strip_hex_prefix cs = (10, cs)"

definition parseInt :: "string \<Rightarrow> jsnum" where
  "parseInt input =
     (let (neg, s) = strip_sign (dropWhile is_ws input);
          (r, t) = strip_hex_prefix s;
          z = takeWhile (radix_digit r) t
      in if z = [] then NaN
         else Fin (if neg then - of_nat (digits_value r z) else of_nat (digits_value r z)))"

subsection \<open>ToNumber\<close>







subsection \<open>Equality\<close>







section \<open>The error taxonomy\<close>

text \<open>
  Lines 8 to 24: \<^verbatim>\<open>AppError extends Error\<close> with the field initialiser
  \<^verbatim>\<open>code = 'unknown_error'\<close>, and two subclasses whose initialisers overwrite the field.
  A thrown value is described by what the program reads of it: its class, its message
  and its \<^verbatim>\<open>code\<close> property (\<^verbatim>\<open>undefined\<close> when it has none). \<open>OtherError\<close> stands
  for every value that is not an instance of \<^verbatim>\<open>AppError\<close>.
\<close>

datatype error_class = AppError | AuthenticationError | RequiredFieldError | OtherError

record thrown =
  cls :: error_class
  message :: string
  code :: jsval

definition new_AppError :: "string \<Rightarrow> thrown" where
  "new_AppError msg =
     \<lparr>cls = AppError, message = msg, code = Prim (Str ''unknown_error'')\<rparr>"

definition new_AuthenticationError :: "string \<Rightarrow> thrown" where
  "new_AuthenticationError msg =
     (new_AppError msg)\<lparr>cls := AuthenticationError, code := Prim (Str ''auth_error'')\<rparr>"

definition new_RequiredFieldError :: "string \<Rightarrow> thrown" where
  "new_RequiredFieldError msg =
     (new_AppError msg)\<lparr>cls := RequiredFieldError, code := Prim (Str ''required_field_error'')\<rparr>"

definition instanceof_AppError :: "thrown \<Rightarrow> bool" where
  "instanceof_AppError e = (cls e \<noteq> OtherError)"

section \<open>Requests, responses and the middleware stack\<close>

text \<open>
  A request is its method (\<open>meth\<close>) and its path: the pathname of the URL, free of
  percent-escapes (the decoding of captured parameters is not represented). A response
  is what the handler asks of \<^verbatim>\<open>res\<close>: \<open>Render st view opts\<close> is
  \<^verbatim>\<open>res.status(st).render(view, opts)\<close>, with status 200 when the handler sets none;
  \<open>File\<close> is the answer of the static middleware; \<open>Final404\<close> and \<open>Final500\<close> are
  the framework's own answers when the stack is exhausted. The template engine and the
  template files are outside the program: a rendering is represented by the template
  name and the options it is given. The result of a request also records what was
  written to \<^verbatim>\<open>console.error\<close>: the errors whose stack trace was printed.
\<close>

datatype http_method = GET | HEAD | POST | PUT | DELETE | PATCH | OPTIONS

record request =
  meth :: http_method
  path :: string

type_synonym render_options = "(string \<times> jsval) list"

datatype response =
    Render nat string render_options
  | File string
  | Final404
  | Final500 thrown

record result =
  console :: "thrown list"
  sent :: response

type_synonym params = "(string \<times> string) list"

text \<open>A handler either throws (\<open>Inl\<close>) or responds (\<open>Inr\<close>); none of them calls \<^verbatim>\<open>next\<close>.\<close>

type_synonym handler = "params \<Rightarrow> thrown + response"

datatype layer =
    Static string
  | Get string handler
  | Use handler
  | UseError "thrown \<Rightarrow> result"

subsection \<open>Path patterns\<close>

text \<open>
  Express compiles a route path to a regular expression that is case insensitive and
  tolerates one trailing slash; \<^verbatim>\<open>:name\<close> matches one non-empty segment. The model
  compares segment by segment.
\<close>

datatype segment = Lit string | Param string

fun split_on :: "char \<Rightarrow> string \<Rightarrow> string list" where
  "split_on d [] = [[]]"
| "split_on d (c # cs) =
     (if c = d then [] # split_on d cs
      else (case split_on d cs of
              [] \<Rightarrow> [[c]]
            | x # xs \<Rightarrow> (c # x) # xs))"

definition path_segments :: "string \<Rightarrow> string list option" where
  "path_segments p =
     (case p of
        [] \<Rightarrow> None
      | c # r \<Rightarrow>
          if c \<noteq> CHR ''/'' then None
          else if r = [] then Some []
          else Some (split_on (CHR ''/'') (if last r = CHR ''/'' then butlast r else r)))"

definition to_segment :: "string \<Rightarrow> segment" where
  "to_segment s = (case s of [] \<Rightarrow> Lit s | c # n \<Rightarrow> if c = CHR '':'' then Param n else Lit s)"

definition pattern_segments :: "string \<Rightarrow> segment list" where
  "pattern_segments pat = (case path_segments pat of None \<Rightarrow> [] | Some ss \<Rightarrow> map to_segment ss)"

definition ci_eq :: "string \<Rightarrow> string \<Rightarrow> bool" where
  "ci_eq s l = (map to_lower s = map to_lower l)"

fun match_segments :: "segment list \<Rightarrow> string list \<Rightarrow> params option" where
  "match_segments [] [] = Some []"
| "match_segments (Lit l # ps) (s # ss) = (if ci_eq s l then match_segments ps ss else None)"
| "match_segments (Param n # ps) (s # ss) =
     (if s = [] then None else map_option (\<lambda>r. (n, s) # r) (match_segments ps ss))"
| "match_segments _ _ = None"

definition match_path :: "string \<Rightarrow> string \<Rightarrow> params option" where
  "match_path pat p =
     (case path_segments p of None \<Rightarrow> None | Some ss \<Rightarrow> match_segments (pattern_segments pat) ss)"

text \<open>
  A mount path matches every path that starts with its segments; the middleware sees
  the rest of the path.
\<close>

fun prefix_match :: "segment list \<Rightarrow> string list \<Rightarrow> bool" where
  "prefix_match [] ss = True"
| "prefix_match (Lit l # ps) (s # ss) = (ci_eq s l \<and> prefix_match ps ss)"
| "prefix_match (Param n # ps) (s # ss) = (s \<noteq> [] \<and> prefix_match ps ss)"
| "prefix_match _ _ = False"

definition under_mount :: "string \<Rightarrow> string \<Rightarrow> string option" where
  "under_mount m p =
     (case path_segments p of
        None \<Rightarrow> None
      | Some ss \<Rightarrow>
          if prefix_match (pattern_segments m) ss
          then Some (if drop (length m) p = [] then ''/'' else drop (length m) p)
          else None)"

text \<open>A route registered with \<^verbatim>\<open>app.get\<close> answers GET and HEAD.\<close>

definition handles_get :: "http_method \<Rightarrow> bool" where
  "handles_get m = (m = GET \<or> m = HEAD)"

subsection \<open>Dispatch\<close>

text \<open>
  The stack is walked in registration order. \<open>sd\<close> is the static directory: what
  \<^verbatim>\<open>express.static\<close> answers a GET or HEAD request for a path below its mount, \<open>None\<close>
  when it passes the request on. While no error is pending, error middleware is skipped
  and the first layer that matches answers; a handler that throws makes its error
  pending, and then every layer but error middleware is skipped.
\<close>

fun dispatch :: "(string \<Rightarrow> string option) \<Rightarrow> layer list \<Rightarrow> thrown option \<Rightarrow> request \<Rightarrow> result" where
  "dispatch sd [] None req = \<lparr>console = [], sent = Final404\<rparr>"
| "dispatch sd [] (Some e) req = \<lparr>console = [], sent = Final500 e\<rparr>"
| "dispatch sd (UseError h # ls) (Some e) req = h e"
| "dispatch sd (l # ls) (Some e) req = dispatch sd ls (Some e) req"
| "dispatch sd (UseError h # ls) None req = dispatch sd ls None req"
| "dispatch sd (Static m # ls) None req =
     (case under_mount m (path req) of
        None \<Rightarrow> dispatch sd ls None req
      | Some rest \<Rightarrow>
          if handles_get (meth req) then
            (case sd rest of
               None \<Rightarrow> dispatch sd ls None req
             | Some body \<Rightarrow> \<lparr>console = [], sent = File body\<rparr>)
          else dispatch sd ls None req)"
| "dispatch sd (Get pat h # ls) None req =
     (case match_path pat (path req) of
        None \<Rightarrow> dispatch sd ls None req
      | Some ps \<Rightarrow>
          if handles_get (meth req) then
            (case h ps of
               Inl e \<Rightarrow> dispatch sd ls (Some e) req
             | Inr r \<Rightarrow> \<lparr>console = [], sent = r\<rparr>)
          else dispatch sd ls None req)"
| "dispatch sd (Use h # ls) None req =
     (case h [] of
        Inl e \<Rightarrow> dispatch sd ls (Some e) req
      | Inr r \<Rightarrow> \<lparr>console = [], sent = r\<rparr>)"

section \<open>The application\<close>

text \<open>\<^verbatim>\<open>req.params.name\<close>: the captured string, \<^verbatim>\<open>undefined\<close> when there is none.\<close>

definition param :: "params \<Rightarrow> string \<Rightarrow> jsval" where
  "param ps n = (case map_of ps n of None \<Rightarrow> Prim Undefined | Some v \<Rightarrow> Prim (Str v))"

text \<open>Lines 77 to 182, one handler per route, in the order of the file.\<close>

definition simple_route :: handler where
  "simple_route ps =
     Inr (Render 200 ''simple''
       [(''layout'', Prim (Boolean False)),
        (''value1'', Prim (Str ''Example Value 1'')),
        (''value2'', Prim (Str ''Example Value 2''))])"

definition home_route :: handler where
  "home_route ps = Inr (Render 200 ''home'' [(''title'', Prim (Str ''Home Page''))])"

definition saymyname_route :: handler where
  "saymyname_route ps =
     Inr (Render 200 ''say-name''
       [(''fname'', param ps ''fname''), (''lname'', param ps ''lname'')])"

definition saymyname2_route :: handler where
  "saymyname2_route ps =
     Inr (Render 200 ''say-name''
       [(''layout'', Prim (Str ''alternate.handlebars'')),
        (''fname'', param ps ''fname''), (''lname'', param ps ''lname'')])"

definition partials_example_route :: handler where
  "partials_example_route ps =
     Inr (Render 200 ''say-name''
       [(''layout'', Prim (Str ''layout-partials.handlebars'')),
        (''fname'', Prim (Str ''John'')), (''lname'', Prim (Str ''Doe''))])"

definition list_route :: handler where
  "list_route ps =
     Inr (Render 200 ''list''
       [(''items'', Array [Prim (Str ''Item 1''), Prim (Str ''Item 2''),
                           Prim (Str ''Item 3''), Prim (Str ''Item 4'')])])"

definition products_route :: handler where
  "products_route ps =
     Inr (Render 200 ''products''
       [(''products'', Array
          [Object [(''name'', Prim (Str ''Product 1'')),
                   (''price'', Prim (Number (Fin 19.99))),
                   (''description'', Prim (Str ''Description for Product 1''))],
           Object [(''name'', Prim (Str ''Product 2'')),
                   (''price'', Prim (Number (Fin 29.99))),
                   (''description'', Prim (Str ''Description for Product 2''))],
           Object [(''name'', Prim (Str ''Product 3'')),
                   (''price'', Prim (Number (Fin 39.99))),
                   (''description'', Prim (Str ''Description for Product 3''))]])])"

definition products_partials_route :: handler where
  "products_partials_route ps =
     Inr (Render 200 ''products-partials''
       [(''layout'', Prim (Str ''layout-partials.handlebars'')),
        (''products'', Array
          [Object [(''name'', Prim (Str ''Product 1'')),
                   (''price'', Prim (Number (Fin 19.99))),
                   (''description'', Prim (Str ''Description for Product 1''))],
           Object [(''name'', Prim (Str ''Product 2'')),
                   (''price'', Prim (Number (Fin 29.99))),
                   (''description'', Prim (Str ''Description for Product 2''))],
           Object [(''name'', Prim (Str ''Product 3'')),
                   (''price'', Prim (Number (Fin 39.99))),
                   (''description'', Prim (Str ''Description for Product 3''))]])])"

definition profile_route :: handler where
  "profile_route ps =
     Inr (Render 200 ''profile''
       [(''isLoggedIn'', Prim (Boolean True)),
        (''username'', Prim (Str ''JaneDoe'')),
        (''isAdmin'', Prim (Boolean False))])"

definition unless_example_route :: handler where
  "unless_example_route ps =
     Inr (Render 200 ''unless-example''
       [(''isLoggedIn'', Prim (Boolean False)), (''username'', Prim (Str ''Guest''))])"

text \<open>Lines 187 to 189: \<^verbatim>\<open>res.status(404).render('not-found')\<close>, with no options.\<close>

definition not_found :: handler where
  "not_found ps = Inr (Render 404 ''not-found'' [])"

text \<open>Lines 194 to 203: the two routes that throw.\<close>

definition error_a_route :: handler where
  "error_a_route ps = Inl (new_AuthenticationError ''User or password does not match'')"

definition error_b_route :: handler where
  "error_b_route ps = Inl (new_RequiredFieldError ''A required field is missing'')"

text \<open>
  Lines 210 to 217: the error middleware prints the stack trace and renders the error
  page with \<^verbatim>\<open>(err as AppError).code || 'unknown_error'\<close>. The cast is a type annotation
  only: nothing tests the class of \<^verbatim>\<open>err\<close>.
\<close>

definition error_middleware :: "thrown \<Rightarrow> result" where
  "error_middleware err =
     \<lparr>console = [err],
      sent = Render 500 ''error'' [(''code'', js_or (code err) (Prim (Str ''unknown_error'')))]\<rparr>"

text \<open>The stack, in the order of the calls on \<^verbatim>\<open>app\<close> in the file.\<close>

definition app :: "layer list" where
  "app =
     [Static ''/static'',
      Get ''/simple'' simple_route,
      Get ''/'' home_route,
      Get ''/saymyname/:fname/:lname'' saymyname_route,
      Get ''/saymyname2/:fname/:lname'' saymyname2_route,
      Get ''/partials-example'' partials_example_route,
      Get ''/list'' list_route,
      Get ''/products'' products_route,
      Get ''/products-partials'' products_partials_route,
      Get ''/profile'' profile_route,
      Get ''/unless-example'' unless_example_route,
      Use not_found,
      Get ''/error-a'' error_a_route,
      Get ''/error-b'' error_b_route,
      UseError error_middleware]"

definition handle :: "(string \<Rightarrow> string option) \<Rightarrow> request \<Rightarrow> result" where
  "handle sd req = dispatch sd app None req"

subsection \<open>The listening port\<close>

text \<open>
  Line 219: \<^verbatim>\<open>parseInt(process.argv[2]) || 3000\<close>. \<^verbatim>\<open>process.argv\<close> holds the
  interpreter, the script and then the positional arguments; a missing element reads as
  \<^verbatim>\<open>undefined\<close>, which \<^verbatim>\<open>parseInt\<close> converts to the string \<^verbatim>\<open>undefined\<close>.
\<close>

definition argv_at :: "string list \<Rightarrow> nat \<Rightarrow> string option" where
  "argv_at argv i = (if i < length argv then Some (argv ! i) else None)"

definition parseInt_arg :: "string option \<Rightarrow> jsnum" where
  "parseInt_arg a = parseInt (case a of None \<Rightarrow> ''undefined'' | Some s \<Rightarrow> s)"

definition port :: "string list \<Rightarrow> jsval" where
  "port argv = js_or (Prim (Number (parseInt_arg (argv_at argv 2)))) (Prim (Number (Fin 3000)))"

section \<open>Notions of the specification\<close>








text \<open>Reading a context: an entry of the options, the elements of an array, a field.\<close>

fun context_value :: "response \<Rightarrow> string \<Rightarrow> jsval" where
  "context_value (Render st v opts) k =
     (case map_of opts k of None \<Rightarrow> Prim Undefined | Some x \<Rightarrow> x)"
| "context_value r k = Prim Undefined"

fun elements :: "jsval \<Rightarrow> jsval list" where
  "elements (Array xs) = xs"
| "elements v = []"

fun keys :: "jsval \<Rightarrow> string list" where
  "keys (Object fs) = map fst fs"
| "keys v = []"

fun field :: "jsval \<Rightarrow> string \<Rightarrow> jsval" where
  "field (Object fs) k = (case map_of fs k of None \<Rightarrow> Prim Undefined | Some x \<Rightarrow> x)"
| "field v k = Prim Undefined"












section \<open>Evaluation\<close>

lemmas char_defs = to_lower_def digit_of_def radix_digit_def digits_value_def is_ws_def


lemmas error_defs =
  new_AppError_def new_AuthenticationError_def new_RequiredFieldError_def
  instanceof_AppError_def error_middleware_def js_or_def





section \<open>First match wins\<close>














section \<open>The error routes\<close>

text \<open>
  C1: GET /error-a is to receive status 500 and the error template with code auth_error,
  GET /error-b status 500 and code required_field_error. In the file the catch-all
  not-found middleware (line 187) is registered before the two routes (lines 194 and
  201), so it answers both requests: each receives status 404 and the not-found
  template, no error is thrown or logged. Had the two routes been reached (the stack
  from line 194 on), the error middleware would answer as the claim says.
\<close>

theorem error_routes_shadowed_by_not_found:
  "handle sd \<lparr>meth = GET, path = ''/error-a''\<rparr>
     = \<lparr>console = [], sent = Render 404 ''not-found'' []\<rparr>
   \<and> handle sd \<lparr>meth = GET, path = ''/error-b''\<rparr>
     = \<lparr>console = [], sent = Render 404 ''not-found'' []\<rparr>
   \<and> sent (dispatch sd (drop 12 app) None \<lparr>meth = GET, path = ''/error-a''\<rparr>)
     = Render 500 ''error'' [(''code'', Prim (Str ''auth_error''))]
   \<and> sent (dispatch sd (drop 12 app) None \<lparr>meth = GET, path = ''/error-b''\<rparr>)
     = Render 500 ''error'' [(''code'', Prim (Str ''required_field_error''))]"
  by code_simp

text \<open>
  C2: the error page is to show the failure's own code when the failure is an
  ApplicationError and unknown_error for every other failure, always with status 500.
  The middleware does not test the class of the failure: an error that is no AppError
  and carries the code ENOENT (a file system error) is answered with status 500 and
  the code ENOENT, not unknown_error.
\<close>

theorem error_middleware_foreign_code:
  "\<not> instanceof_AppError \<lparr>cls = OtherError, message = msg, code = Prim (Str ''ENOENT'')\<rparr>
   \<and> sent (error_middleware \<lparr>cls = OtherError, message = msg, code = Prim (Str ''ENOENT'')\<rparr>)
     = Render 500 ''error'' [(''code'', Prim (Str ''ENOENT''))]
   \<and> Prim (Str ''ENOENT'') \<noteq> Prim (Str ''unknown_error'')"
  by (simp add: error_defs)

section \<open>Requests outside the Route Table\<close>




section \<open>The equality helper\<close>


section \<open>The listening port\<close>



lemma parseInt_80abc: "parseInt ''80abc'' = Fin 80"
  by (simp add: parseInt_def char_defs)




text \<open>
  The argument \<^verbatim>\<open>3000\<close> parses to 3000, neither \<open>NaN\<close> nor 0, and the port is 3000.
\<close>

theorem port_3000_counterexample:
  "port [''node'', ''server.js'', ''3000''] = Prim (Number (Fin 3000))
   \<and> parseInt_arg (argv_at [''node'', ''server.js'', ''3000''] 2) \<noteq> NaN
   \<and> parseInt_arg (argv_at [''node'', ''server.js'', ''3000''] 2) \<noteq> Fin 0"
proof -
  have p: "parseInt ''3000'' = Fin 3000"
    by (simp add: parseInt_def char_defs)
  show ?thesis
    by (simp add: port_def js_or_def argv_at_def parseInt_arg_def p)
qed

text \<open>
  C10, amended: the listening port equals the integer prefix-parse of the first
  positional argument whenever that parse is a number other than zero, and it equals
  3000 exactly when the parse is \<open>NaN\<close>, 0 or 3000 itself.
\<close>

theorem port_is_prefix_parse_or_3000:
  "(parseInt_arg (argv_at argv 2) \<noteq> NaN \<and> parseInt_arg (argv_at argv 2) \<noteq> Fin 0
      \<longrightarrow> port argv = Prim (Number (parseInt_arg (argv_at argv 2))))
   \<and> (port argv = Prim (Number (Fin 3000))
        \<longleftrightarrow> parseInt_arg (argv_at argv 2) = NaN \<or> parseInt_arg (argv_at argv 2) = Fin 0
            \<or> parseInt_arg (argv_at argv 2) = Fin 3000)"
  by (auto simp: port_def js_or_def)

theorem port_is_prefix_parse_or_3000_witness:
  "parseInt_arg (argv_at [''node'', ''server.js'', ''80abc''] 2) = Fin 80
   \<and> port [''node'', ''server.js'', ''80abc''] = Prim (Number (Fin 80))
   \<and> parseInt_arg (argv_at [''node'', ''server.js'', ''0''] 2) = Fin 0
   \<and> port [''node'', ''server.js'', ''0''] = Prim (Number (Fin 3000))"
proof -
  have a: "parseInt_arg (argv_at [''node'', ''server.js'', ''80abc''] 2) = Fin 80"
    by (simp add: argv_at_def parseInt_arg_def parseInt_80abc)
  have b: "parseInt_arg (argv_at [''node'', ''server.js'', ''0''] 2) = Fin 0"
    by (simp add: argv_at_def parseInt_arg_def parseInt_def char_defs)
  from port_is_prefix_parse_or_3000 [of "[''node'', ''server.js'', ''80abc'']"]
  have p80: "port [''node'', ''server.js'', ''80abc''] = Prim (Number (Fin 80))"
    unfolding a by simp
  from port_is_prefix_parse_or_3000 [of "[''node'', ''server.js'', ''0'']"]
  have p0: "port [''node'', ''server.js'', ''0''] = Prim (Number (Fin 3000))"
    unfolding b by simp
  from a b p80 p0 show ?thesis by blast
qed

section \<open>The route handlers\<close>



text \<open>
  C7: the context of GET /products holds exactly three product records, each with the
  fields name, price and description, in the order Product 1, Product 2, Product 3,
  with the prices 19.99, 29.99 and 39.99.
\<close>

theorem products_context:
  "sent (handle sd \<lparr>meth = GET, path = ''/products''\<rparr>)
     = Render 200 ''products''
         [(''products'', Array
            [Object [(''name'', Prim (Str ''Product 1'')),
                     (''price'', Prim (Number (Fin 19.99))),
                     (''description'', Prim (Str ''Description for Product 1''))],
             Object [(''name'', Prim (Str ''Product 2'')),
                     (''price'', Prim (Number (Fin 29.99))),
                     (''description'', Prim (Str ''Description for Product 2''))],
             Object [(''name'', Prim (Str ''Product 3'')),
                     (''price'', Prim (Number (Fin 39.99))),
                     (''description'', Prim (Str ''Description for Product 3''))]])]
   \<and> length (elements (context_value
         (sent (handle sd \<lparr>meth = GET, path = ''/products''\<rparr>)) ''products'')) = 3
   \<and> map keys (elements (context_value
         (sent (handle sd \<lparr>meth = GET, path = ''/products''\<rparr>)) ''products''))
       = [[''name'', ''price'', ''description''],
          [''name'', ''price'', ''description''],
          [''name'', ''price'', ''description'']]
   \<and> map (\<lambda>p. field p ''name'') (elements (context_value
         (sent (handle sd \<lparr>meth = GET, path = ''/products''\<rparr>)) ''products''))
       = [Prim (Str ''Product 1''), Prim (Str ''Product 2''), Prim (Str ''Product 3'')]
   \<and> map (\<lambda>p. field p ''price'') (elements (context_value
         (sent (handle sd \<lparr>meth = GET, path = ''/products''\<rparr>)) ''products''))
       = [Prim (Number (Fin 19.99)), Prim (Number (Fin 29.99)), Prim (Number (Fin 39.99))]"
proof -
  have run: "handle sd \<lparr>meth = GET, path = ''/products''\<rparr>
               = \<lparr>console = [], sent = projr (products_route [])\<rparr>"
    by code_simp
  have r: "projr (products_route [])
      = Render 200 ''products''
         [(''products'', Array
            [Object [(''name'', Prim (Str ''Product 1'')),
                     (''price'', Prim (Number (Fin 19.99))),
                     (''description'', Prim (Str ''Description for Product 1''))],
             Object [(''name'', Prim (Str ''Product 2'')),
                     (''price'', Prim (Number (Fin 29.99))),
                     (''description'', Prim (Str ''Description for Product 2''))],
             Object [(''name'', Prim (Str ''Product 3'')),
                     (''price'', Prim (Number (Fin 39.99))),
                     (''description'', Prim (Str ''Description for Product 3''))]])]"
    by (simp add: products_route_def)
  show ?thesis
    by (simp add: run r)
qed

section \<open>Errors and their codes\<close>

text \<open>
  C8: every constructed error of the taxonomy belongs to one variant with a fixed code:
  auth_error for AuthenticationError, required_field_error for RequiredFieldError,
  unknown_error for the base AppError, whatever the message; the three variants are
  distinct, and each is an AppError; and the code is not changed after construction:
  the error middleware, the only consumer of an error, logs the error as it was
  constructed and shows that code.
\<close>

theorem error_taxonomy_codes:
  "code (new_AppError m) = Prim (Str ''unknown_error'')
   \<and> code (new_AuthenticationError m) = Prim (Str ''auth_error'')
   \<and> code (new_RequiredFieldError m) = Prim (Str ''required_field_error'')
   \<and> cls (new_AppError m) = AppError
   \<and> cls (new_AuthenticationError m) = AuthenticationError
   \<and> cls (new_RequiredFieldError m) = RequiredFieldError
   \<and> distinct [AppError, AuthenticationError, RequiredFieldError]
   \<and> instanceof_AppError (new_AppError m)
   \<and> instanceof_AppError (new_AuthenticationError m)
   \<and> instanceof_AppError (new_RequiredFieldError m)
   \<and> error_middleware (new_AppError m)
       = \<lparr>console = [new_AppError m],
          sent = Render 500 ''error'' [(''code'', Prim (Str ''unknown_error''))]\<rparr>
   \<and> error_middleware (new_AuthenticationError m)
       = \<lparr>console = [new_AuthenticationError m],
          sent = Render 500 ''error'' [(''code'', Prim (Str ''auth_error''))]\<rparr>
   \<and> error_middleware (new_RequiredFieldError m)
       = \<lparr>console = [new_RequiredFieldError m],
          sent = Render 500 ''error'' [(''code'', Prim (Str ''required_field_error''))]\<rparr>"
  by (simp add: error_defs)

text \<open>
  The base AppError carries the code unknown_error, a truthy string: the page shows
  unknown_error although the code property is neither absent nor falsy.
\<close>

theorem error_code_counterexample:
  "truthy (code (new_AppError ''boom''))
   \<and> code (new_AppError ''boom'') \<noteq> Prim Undefined
   \<and> sent (error_middleware (new_AppError ''boom''))
       = Render 500 ''error'' [(''code'', Prim (Str ''unknown_error''))]"
  by (simp add: error_defs)

text \<open>
  C9, amended: the error middleware shows the thrown value's own code property whenever
  that property is truthy, whether or not the value is an AppError; it shows
  unknown_error exactly when the property is absent or falsy, or is itself the string
  unknown_error.
\<close>

theorem error_middleware_renders_truthy_code:
  "sent (error_middleware err)
     = Render 500 ''error''
         [(''code'', if truthy (code err) then code err else Prim (Str ''unknown_error''))]
   \<and> (context_value (sent (error_middleware err)) ''code'' = Prim (Str ''unknown_error'')
        \<longleftrightarrow> \<not> truthy (code err) \<or> code err = Prim (Str ''unknown_error''))"
  by (auto simp: error_defs)

theorem error_middleware_renders_truthy_code_witness:
  "sent (error_middleware
           \<lparr>cls = OtherError, message = ''no such file'', code = Prim (Str ''ENOENT'')\<rparr>)
     = Render 500 ''error'' [(''code'', Prim (Str ''ENOENT''))]
   \<and> sent (error_middleware \<lparr>cls = OtherError, message = ''x is null'', code = Prim Undefined\<rparr>)
     = Render 500 ''error'' [(''code'', Prim (Str ''unknown_error''))]"
  using error_middleware_renders_truthy_code
          [of "\<lparr>cls = OtherError, message = ''no such file'', code = Prim (Str ''ENOENT'')\<rparr>"]
        error_middleware_renders_truthy_code
          [of "\<lparr>cls = OtherError, message = ''x is null'', code = Prim Undefined\<rparr>"]
  by simp

end
